theory Spec2Isabelle
  imports Complex_Main "HOL-Library.Signed_Division"
begin

section \<open>Numbers of the host language\<close>

text \<open>
  The component computes with JavaScript numbers. The model keeps the special values
  the code can produce and test for (\<open>NaN\<close>, the two infinities) and takes the finite
  values as exact rationals: rounding and overflow of finite arithmetic are not
  modelled, and \<open>Fin 0\<close> stands for both signed zeros (a zero divisor is read as \<open>+0\<close>).
\<close>

datatype jsnum = Fin rat | PInf | NInf | NaN

instantiation jsnum :: "{zero,one,plus,minus,uminus,times,inverse,abs,ord}"
begin

definition zero_jsnum_def: "zero_jsnum = Fin 0"

definition one_jsnum_def: "one_jsnum = Fin 1"

fun uminus_jsnum :: "jsnum \<Rightarrow> jsnum" where
  "uminus_jsnum (Fin a) = Fin (- a)"
| "uminus_jsnum PInf = NInf"
| "uminus_jsnum NInf = PInf"
| "uminus_jsnum NaN = NaN"

fun plus_jsnum :: "jsnum \<Rightarrow> jsnum \<Rightarrow> jsnum" where
  "plus_jsnum NaN _ = NaN"
| "plus_jsnum _ NaN = NaN"
| "plus_jsnum (Fin a) (Fin b) = Fin (a + b)"
| "plus_jsnum PInf NInf = NaN"
| "plus_jsnum NInf PInf = NaN"
| "plus_jsnum PInf _ = PInf"
| "plus_jsnum _ PInf = PInf"
| "plus_jsnum NInf _ = NInf"
| "plus_jsnum _ NInf = NInf"

definition minus_jsnum_def: "minus_jsnum a b = a + (- b :: jsnum)"

fun times_jsnum :: "jsnum \<Rightarrow> jsnum \<Rightarrow> jsnum" where
  "times_jsnum NaN _ = NaN"
| "times_jsnum _ NaN = NaN"
| "times_jsnum (Fin a) (Fin b) = Fin (a * b)"
| "times_jsnum (Fin a) PInf = (if a = 0 then NaN else if 0 < a then PInf else NInf)"
| "times_jsnum (Fin a) NInf = (if a = 0 then NaN else if 0 < a then NInf else PInf)"
| "times_jsnum PInf (Fin b) = (if b = 0 then NaN else if 0 < b then PInf else NInf)"
| "times_jsnum NInf (Fin b) = (if b = 0 then NaN else if 0 < b then NInf else PInf)"
| "times_jsnum PInf PInf = PInf"
| "times_jsnum NInf NInf = PInf"
| "times_jsnum PInf NInf = NInf"
| "times_jsnum NInf PInf = NInf"

fun divide_jsnum :: "jsnum \<Rightarrow> jsnum \<Rightarrow> jsnum" where
  "divide_jsnum NaN _ = NaN"
| "divide_jsnum _ NaN = NaN"
| "divide_jsnum (Fin a) (Fin b) =
     (if b \<noteq> 0 then Fin (a / b)
      else if a = 0 then NaN else if 0 < a then PInf else NInf)"
| "divide_jsnum (Fin a) PInf = Fin 0"
| "divide_jsnum (Fin a) NInf = Fin 0"
| "divide_jsnum PInf (Fin b) = (if 0 \<le> b then PInf else NInf)"
| "divide_jsnum NInf (Fin b) = (if 0 \<le> b then NInf else PInf)"
| "divide_jsnum _ _ = NaN"

definition inverse_jsnum_def: "inverse_jsnum a = divide (Fin 1) a"

fun abs_jsnum :: "jsnum \<Rightarrow> jsnum" where
  "abs_jsnum (Fin a) = Fin \<bar>a\<bar>"
| "abs_jsnum PInf = PInf"
| "abs_jsnum NInf = PInf"
| "abs_jsnum NaN = NaN"

fun less_jsnum :: "jsnum \<Rightarrow> jsnum \<Rightarrow> bool" where
  "less_jsnum NaN _ = False"
| "less_jsnum _ NaN = False"
| "less_jsnum (Fin a) (Fin b) = (a < b)"
| "less_jsnum (Fin a) PInf = True"
| "less_jsnum NInf (Fin b) = True"
| "less_jsnum NInf PInf = True"
| "less_jsnum _ _ = False"

fun less_eq_jsnum :: "jsnum \<Rightarrow> jsnum \<Rightarrow> bool" where
  "less_eq_jsnum NaN _ = False"
| "less_eq_jsnum _ NaN = False"
| "less_eq_jsnum (Fin a) (Fin b) = (a \<le> b)"
| "less_eq_jsnum (Fin a) PInf = True"
| "less_eq_jsnum NInf _ = True"
| "less_eq_jsnum PInf PInf = True"
| "less_eq_jsnum _ _ = False"

instance ..

end

text \<open>Truthiness of a number, and \<open>a || b\<close> on numbers.\<close>

fun truthy :: "jsnum \<Rightarrow> bool" where
  "truthy (Fin a) = (a \<noteq> 0)"
| "truthy NaN = False"
| "truthy _ = True"

definition or_else :: "jsnum \<Rightarrow> jsnum \<Rightarrow> jsnum" where
  "or_else a b = (if truthy a then a else b)"

text \<open>Strict equality \<open>a === b\<close> on numbers: \<open>NaN\<close> equals nothing.\<close>

definition strict_eq :: "jsnum \<Rightarrow> jsnum \<Rightarrow> bool" where
  "strict_eq a b = (a = b \<and> a \<noteq> NaN)"

section \<open>Axis geometry table\<close>

datatype axis = AxisX | AxisXReverse | AxisY | AxisYReverse

record 'a touch =
  pageX :: 'a
  pageY :: 'a

record 'a rotation =
  row_x :: "'a \<times> 'a"
  row_y :: "'a \<times> 'a"

definition rotationMatrix :: "axis \<Rightarrow> ('a :: {zero,one,uminus}) rotation" where
  "rotationMatrix a =
     (case a of
        AxisX \<Rightarrow> \<lparr>row_x = (1, 0), row_y = (0, 1)\<rparr>
      | AxisXReverse \<Rightarrow> \<lparr>row_x = (- 1, 0), row_y = (0, 1)\<rparr>
      | AxisY \<Rightarrow> \<lparr>row_x = (0, 1), row_y = (1, 0)\<rparr>
      | AxisYReverse \<Rightarrow> \<lparr>row_x = (0, - 1), row_y = (1, 0)\<rparr>)"

text \<open>The product of a 2x2 matrix with a sample, as \<open>applyRotationMatrix\<close> writes it out.\<close>

definition applyMatrix :: "('a :: {plus,times}) rotation \<Rightarrow> 'a touch \<Rightarrow> 'a touch" where
  "applyMatrix m t =
     \<lparr>pageX = fst (row_x m) * pageX t + snd (row_x m) * pageY t,
      pageY = fst (row_y m) * pageX t + snd (row_y m) * pageY t\<rparr>"

definition applyRotationMatrix :: "('a :: {zero,one,uminus,plus,times}) touch \<Rightarrow> axis \<Rightarrow> 'a touch" where
  "applyRotationMatrix t a = applyMatrix (rotationMatrix a) t"

definition transpose_rotation :: "'a rotation \<Rightarrow> 'a rotation" where
  "transpose_rotation m =
     \<lparr>row_x = (fst (row_x m), fst (row_y m)), row_y = (snd (row_x m), snd (row_y m))\<rparr>"

definition matrix_product :: "('a :: {plus,times}) rotation \<Rightarrow> 'a rotation \<Rightarrow> 'a rotation" where
  "matrix_product m n =
     \<lparr>row_x = (fst (row_x m) * fst (row_x n) + snd (row_x m) * fst (row_y n),
               fst (row_x m) * snd (row_x n) + snd (row_x m) * snd (row_y n)),
      row_y = (fst (row_y m) * fst (row_x n) + snd (row_y m) * fst (row_y n),
               fst (row_y m) * snd (row_x n) + snd (row_y m) * snd (row_y n))\<rparr>"

definition identity_rotation :: "('a :: {zero,one}) rotation" where
  "identity_rotation = \<lparr>row_x = (1, 0), row_y = (0, 1)\<rparr>"

section \<open>Modulo helper\<close>

text \<open>
  The helper takes numbers of the host language, that is doubles. On integer values a
  double holds every integer of at most 53 bits and, above that, the multiples of a
  power of two: \<open>round_double\<close> is the rounding of an integer to the nearest such value,
  ties to the even one (values below the overflow threshold; the sums below stay under
  the larger operand).
\<close>

fun bitlen :: "nat \<Rightarrow> nat" where
  "bitlen n = (if n = 0 then 0 else Suc (bitlen (n div 2)))"

definition round_to_multiple :: "int \<Rightarrow> int \<Rightarrow> int" where
  "round_to_multiple u k =
     (let q = k div u; r = k mod u
      in if 2 * r < u then q * u
         else if u < 2 * r then (q + 1) * u
         else if even q then q * u else (q + 1) * u)"

definition round_double :: "int \<Rightarrow> int" where
  "round_double k = round_to_multiple (2 ^ (bitlen (nat \<bar>k\<bar>) - 53)) k"

text \<open>An integer that a double holds exactly.\<close>

definition is_double :: "int \<Rightarrow> bool" where
  "is_double k = (round_double k = k)"

text \<open>\<open>a + b\<close> on two integer-valued doubles.\<close>

definition double_plus :: "int \<Rightarrow> int \<Rightarrow> int" where
  "double_plus a b = round_double (a + b)"

text \<open>
  \<open>n % m\<close> on integer-valued doubles is exact: the remainder of the truncating division
  (it has the sign of \<open>n\<close>), and \<open>NaN\<close> for \<open>m = 0\<close>; \<open>None\<close> stands for \<open>NaN\<close>, which the
  comparison \<open>q < 0\<close> lets through unchanged.
\<close>

definition js_rem :: "int \<Rightarrow> int \<Rightarrow> int option" where
  "js_rem n m = (if m = 0 then None else Some (n smod m))"

definition mod_fc :: "int \<Rightarrow> int \<Rightarrow> int option" where
  "mod_fc n m =
     (case js_rem n m of
        None \<Rightarrow> None
      | Some q \<Rightarrow> Some (if q < 0 then double_plus q m else q))"

section \<open>Strings of the host language\<close>

text \<open>
  \<open>s.split(c)\<close> for a one-character separator, and \<open>xs[i]\<close>, which is \<open>undefined\<close>
  (\<open>None\<close>) out of range.
\<close>

fun split_at :: "char \<Rightarrow> string \<Rightarrow> string list" where
  "split_at c [] = [[]]"
| "split_at c (x # xs) =
     (if x = c then [] # split_at c xs
      else (case split_at c xs of [] \<Rightarrow> [[x]] | u # us \<Rightarrow> (x # u) # us))"

definition element :: "'a list \<Rightarrow> nat \<Rightarrow> 'a option" where
  "element xs i = (if i < length xs then Some (xs ! i) else None)"

text \<open>
  \<open>parseInt(s, 10)\<close>: leading white space is skipped (the ASCII white space and line
  terminators; strings are byte strings here), then an optional sign, then the longest
  run of decimal digits; with no digit the result is \<open>NaN\<close>. An \<open>undefined\<close> argument is
  first turned into the string \<open>undefined\<close>.
\<close>

definition is_space :: "char \<Rightarrow> bool" where
  "is_space c = (c \<in> set [CHR 0x09, CHR 0x0A, CHR 0x0B, CHR 0x0C, CHR 0x0D, CHR 0x20])"

definition is_digit :: "char \<Rightarrow> bool" where
  "is_digit c = (c \<in> set ''0123456789'')"

definition digit_value :: "char \<Rightarrow> nat" where
  "digit_value c = of_char c - 48"

definition parseInt10 :: "string \<Rightarrow> jsnum" where
  "parseInt10 str =
     (let s = dropWhile is_space str;
          (negative, body) =
            (case s of
               [] \<Rightarrow> (False, s)
             | c # r \<Rightarrow> if c = CHR ''-'' then (True, r)
                        else if c = CHR ''+'' then (False, r) else (False, s));
          z = takeWhile is_digit body;
          n = int (foldl (\<lambda>acc c. 10 * acc + digit_value c) 0 z)
      in if z = [] then NaN else Fin (of_int (if negative then - n else n)))"

definition to_string :: "string option \<Rightarrow> string" where
  "to_string v = (case v of None \<Rightarrow> ''undefined'' | Some s \<Rightarrow> s)"

text \<open>A number read from a slot that may hold \<open>undefined\<close>.\<close>

definition to_number :: "jsnum option \<Rightarrow> jsnum" where
  "to_number v = (case v of None \<Rightarrow> NaN | Some n \<Rightarrow> n)"

section \<open>State, effects and completions\<close>

type_synonym node = nat

datatype jsval = JBool bool | JStr string

text \<open>The calls the component makes to its surroundings, in order.\<close>

datatype call =
    PreventDefault
  | OnTouchStart
  | OnTransitionEnd
  | OnSwitching jsnum string
  | ConsoleWarn "jsval list"

text \<open>
  The module-level ownership slot, the refs of one component instance, the inline style
  of its container and the log of calls. \<open>None\<close> is \<open>null\<close> for the slot and for
  \<open>indexCurrent\<close>, and \<open>undefined\<close> for \<open>viewLength\<close> and \<open>isSwiping\<close>.
\<close>

record world =
  nodeWhoClaimedTheScroll :: "node option"
  indexCurrent :: "jsnum option"
  started :: bool
  viewLength :: "jsnum option"
  lastX :: jsnum
  vx :: jsnum
  startX :: jsnum
  startY :: jsnum
  isSwiping :: "jsnum option"
  startIndex :: jsnum
  style_webkitTransform :: "string option"
  style_transform :: "string option"
  calls :: "call list"

datatype error = TypeError | ReferenceError

text \<open>
  A statement completes normally, by \<open>return\<close>, or by throwing; what it did to the
  state before stays done in all three cases.
\<close>

datatype 'a completion = Normal 'a | Return | Throw error

type_synonym 'a js = "world \<Rightarrow> 'a completion \<times> world"

definition normal :: "'a \<Rightarrow> 'a js" where
  "normal v = (\<lambda>w. (Normal v, w))"

definition returnStmt :: "'a js" where
  "returnStmt = (\<lambda>w. (Return, w))"

definition throw :: "error \<Rightarrow> 'a js" where
  "throw e = (\<lambda>w. (Throw e, w))"

definition andThen :: "'a js \<Rightarrow> ('a \<Rightarrow> 'b js) \<Rightarrow> 'b js" where
  "andThen m f =
     (\<lambda>w. case m w of
        (Normal v, w') \<Rightarrow> f v w'
      | (Return, w') \<Rightarrow> (Return, w')
      | (Throw e, w') \<Rightarrow> (Throw e, w'))"

fun block :: "unit js list \<Rightarrow> unit js" where
  "block [] = normal ()"
| "block (s # ss) = andThen s (\<lambda>_. block ss)"

text \<open>A function call: a \<open>return\<close> inside the body ends the call, not the caller.\<close>

definition call_fn :: "unit js \<Rightarrow> unit js" where
  "call_fn body =
     (\<lambda>w. case body w of
        (Return, w') \<Rightarrow> (Normal (), w')
      | r \<Rightarrow> r)"

text \<open>Running a statement from a state (function application, named for the proofs).\<close>

definition run :: "'a js \<Rightarrow> world \<Rightarrow> 'a completion \<times> world" where
  "run m w = m w"

definition read :: "(world \<Rightarrow> 'a) \<Rightarrow> 'a js" where
  "read f = (\<lambda>w. (Normal (f w), w))"

definition modify :: "(world \<Rightarrow> world) \<Rightarrow> unit js" where
  "modify f = (\<lambda>w. (Normal (), f w))"

definition emit :: "call \<Rightarrow> unit js" where
  "emit c = modify (\<lambda>w. w\<lparr>calls := calls w @ [c]\<rparr>)"

definition ifThen :: "bool \<Rightarrow> unit js \<Rightarrow> unit js" where
  "ifThen c body = (if c then body else normal ())"

definition ifThenS :: "(world \<Rightarrow> bool) \<Rightarrow> unit js \<Rightarrow> unit js" where
  "ifThenS c body = (\<lambda>w. if c w then body w else (Normal (), w))"

text \<open>
  The file is an ES module and every handler is an arrow function inside the arrow
  function \<open>SwipeableComponent\<close>: \<open>this\<close> is the module's, which is \<open>undefined\<close>.
  Reading or writing a property of \<open>this\<close> throws a \<open>TypeError\<close>.
\<close>

definition this_get :: "string \<Rightarrow> 'a js" where
  "this_get property = throw TypeError"

definition this_set :: "string \<Rightarrow> 'a \<Rightarrow> unit js" where
  "this_set property v = throw TypeError"

text \<open>
  A \<open>const\<close> belongs to the whole block it is declared in, and reading it before its
  declaration has run throws a \<open>ReferenceError\<close>. In \<open>handleSwipeMove\<close> line 326 declares
  \<open>const { index, startX }\<close> in the function body, so the name \<open>startX\<close> at line 286 is
  that constant, not the ref of the component, and it is read there before line 326.
\<close>

definition uninitialized :: "string \<Rightarrow> 'a js" where
  "uninitialized name = throw ReferenceError"

text \<open>
  Inside \<open>handleSwipeMove\<close> the name \<open>isSwiping\<close> is the ref object of the component, not
  the local \<open>_isSwiping\<close>; an object is never strictly equal to \<open>true\<close>.
\<close>

datatype 'a ref = Ref 'a

definition ref_is_true :: "'a ref \<Rightarrow> bool" where
  "ref_is_true r = False"

section \<open>The component\<close>

text \<open>
  What the closures of one render hold: the props the handlers use (for a callback
  prop, whether it was supplied) and the two state values \<open>handleTransitionEnd\<close> reads.
\<close>

record props =
  axis :: axis
  resistance :: bool
  ignoreNativeScroll :: bool
  animateTransitions :: bool
  index :: jsnum
  childrenCount :: nat
  onTouchStart :: bool
  onTransitionEnd :: bool
  onSwitching :: bool
  displaySameSlide :: bool
  isDragging :: bool

text \<open>
  What the handlers read from the document: the two nodes behind the refs, the bounding
  rectangle of the root, the computed transform of the container and the computed
  paddings of the root.
\<close>

record dom =
  rootNode :: "node option"
  containerNode :: "node option"
  rootWidth :: jsnum
  rootHeight :: jsnum
  webkitTransformValue :: string
  transformValue :: string
  paddingLeft :: string
  paddingRight :: string

record event =
  touches :: "jsnum touch list"
  target :: node

text \<open>
  Names the file uses and does not declare, taken as parameters: the constant
  \<open>constant.UNCERTAINTY_THRESHOLD\<close>, the helpers \<open>computeIndex\<close>, \<open>getDomTreeShapes\<close> and
  \<open>findNativeHandler\<close>; and two services of the platform: the string of a number in a
  template literal and \<open>process.env.NODE_ENV\<close>.
\<close>

record computeIndex_args =
  ci_children :: nat
  ci_resistance :: bool
  ci_pageX :: jsnum
  ci_startIndex :: jsnum
  ci_startX :: jsnum
  ci_viewLength :: jsnum

record findNativeHandler_args =
  fn_domTreeShapes :: "node list"
  fn_startX :: jsnum
  fn_pageX :: jsnum
  fn_axis :: axis

record env =
  UNCERTAINTY_THRESHOLD :: jsnum
  computeIndex :: "computeIndex_args \<Rightarrow> jsnum \<times> jsnum option"
  getDomTreeShapes :: "node \<Rightarrow> node option \<Rightarrow> node list"
  findNativeHandler :: "findNativeHandler_args \<Rightarrow> bool"
  numberToString :: "jsnum \<Rightarrow> string"
  NODE_ENV :: "string option"

subsection \<open>Axis table: transform and length\<close>

definition transform :: "(jsnum \<Rightarrow> string) \<Rightarrow> axis \<Rightarrow> jsnum \<Rightarrow> string" where
  "transform str a translate =
     (case a of
        AxisX \<Rightarrow> ''translate('' @ str (- translate) @ ''%, 0)''
      | AxisXReverse \<Rightarrow> ''translate('' @ str translate @ ''%, 0)''
      | AxisY \<Rightarrow> ''translate(0, '' @ str (- translate) @ ''%)''
      | AxisYReverse \<Rightarrow> ''translate(0, '' @ str translate @ ''%)'')"

text \<open>\<open>getBoundingClientRect()[axisProperties.length[axis]]\<close> of the root.\<close>

definition rectLength :: "dom \<Rightarrow> axis \<Rightarrow> jsnum" where
  "rectLength d a =
     (case a of
        AxisX \<Rightarrow> rootWidth d
      | AxisXReverse \<Rightarrow> rootWidth d
      | AxisY \<Rightarrow> rootHeight d
      | AxisYReverse \<Rightarrow> rootHeight d)"

subsection \<open>Small steps shared by the handlers\<close>

text \<open>\<open>event.touches[0]\<close> handed to \<open>applyRotationMatrix\<close>, which reads its \<open>pageX\<close>.\<close>

definition firstTouch :: "event \<Rightarrow> jsnum touch js" where
  "firstTouch ev = (case touches ev of [] \<Rightarrow> throw TypeError | t # _ \<Rightarrow> normal t)"

text \<open>\<open>window.getComputedStyle(node)\<close> throws when the node is \<open>null\<close>.\<close>

definition getComputedStyle :: "node option \<Rightarrow> unit js" where
  "getComputedStyle n = (case n of None \<Rightarrow> throw TypeError | Some _ \<Rightarrow> normal ())"

text \<open>A method call on a value that may be \<open>undefined\<close>.\<close>

definition defined :: "'a option \<Rightarrow> 'a js" where
  "defined v = (case v of None \<Rightarrow> throw TypeError | Some x \<Rightarrow> normal x)"

definition to_boolean :: "jsnum option \<Rightarrow> bool" where
  "to_boolean v = (case v of None \<Rightarrow> False | Some n \<Rightarrow> truthy n)"

subsection \<open>handleTransitionEnd\<close>

definition handleTransitionEnd :: "props \<Rightarrow> unit js" where
  "handleTransitionEnd p =
     call_fn (block
       [ifThen (\<not> onTransitionEnd p) returnStmt,
        ifThen (displaySameSlide p) returnStmt,
        ifThen (\<not> isDragging p) (emit OnTransitionEnd)])"

subsection \<open>handleSwipeStart and handleTouchStart\<close>

text \<open>
  Lines 236 and 237: the computed transform of the container, the prefixed property
  first. Line 240: \<open>transform.split('(')[1].split(')')[0].split(',')\<close>; without an opening
  parenthesis the second element is \<open>undefined\<close> and its \<open>split\<close> throws (\<open>None\<close> here,
  turned into the \<open>TypeError\<close> by \<open>defined\<close>).
\<close>

definition computedTransform :: "dom \<Rightarrow> string" where
  "computedTransform d =
     (if webkitTransformValue d \<noteq> [] then webkitTransformValue d else transformValue d)"

definition transformValues :: "string \<Rightarrow> string list option" where
  "transformValues t =
     (case element (split_at CHR ''('' t) 1 of
        None \<Rightarrow> None
      | Some inner \<Rightarrow>
          (case element (split_at CHR '')'' inner) 0 of
             None \<Rightarrow> None
           | Some values \<Rightarrow> Some (split_at CHR '','' values)))"

text \<open>Lines 243 to 253: the start index computed back from the transform.\<close>

definition backComputedStartIndex ::
    "axis \<Rightarrow> string list \<Rightarrow> jsnum option \<Rightarrow> string \<Rightarrow> string \<Rightarrow> jsnum" where
  "backComputedStartIndex a values len padLeft padRight =
     (let tranformNormalized =
            applyRotationMatrix
              \<lparr>pageX = parseInt10 (to_string (element values 4)),
               pageY = parseInt10 (to_string (element values 5))\<rparr> a
      in or_else
           (- pageX tranformNormalized
              / (to_number len - parseInt10 padLeft - parseInt10 padRight))
           (Fin 0))"

definition handleSwipeStart :: "props \<Rightarrow> dom \<Rightarrow> event \<Rightarrow> unit js" where
  "handleSwipeStart p d ev =
     call_fn
       (andThen (firstTouch ev) (\<lambda>t0.
        let touch = applyRotationMatrix t0 (axis p) in
        block
          [modify (\<lambda>w. w\<lparr>viewLength :=
              (case rootNode d of None \<Rightarrow> None | Some _ \<Rightarrow> Some (rectLength d (axis p)))\<rparr>),
           modify (\<lambda>w. w\<lparr>startX := pageX touch\<rparr>),
           modify (\<lambda>w. w\<lparr>lastX := pageX touch\<rparr>),
           modify (\<lambda>w. w\<lparr>vx := Fin 0\<rparr>),
           modify (\<lambda>w. w\<lparr>startY := pageY touch\<rparr>),
           modify (\<lambda>w. w\<lparr>isSwiping := None\<rparr>),
           modify (\<lambda>w. w\<lparr>started := True\<rparr>),
           andThen (getComputedStyle (containerNode d)) (\<lambda>_.
           let t = computedTransform d
           in ifThen (t \<noteq> [] \<and> t \<noteq> ''none'')
                (andThen (defined (transformValues t)) (\<lambda>values.
                 andThen (getComputedStyle (rootNode d)) (\<lambda>_.
                 andThen (read viewLength) (\<lambda>len.
                 modify (\<lambda>w. w\<lparr>startIndex :=
                   backComputedStartIndex (axis p) values len
                     (paddingLeft d) (paddingRight d)\<rparr>))))))]))"

definition handleTouchStart :: "props \<Rightarrow> dom \<Rightarrow> event \<Rightarrow> unit js" where
  "handleTouchStart p d ev =
     call_fn (block
       [ifThen (onTouchStart p) (emit OnTouchStart),
        handleSwipeStart p d ev])"

subsection \<open>handleSwipeMove\<close>

text \<open>\<open>a && b\<close> and \<open>a || b\<close> on conditions whose evaluation may throw.\<close>

definition andAlso :: "bool js \<Rightarrow> bool js \<Rightarrow> bool js" where
  "andAlso a b = andThen a (\<lambda>v. if v then b else normal False)"

definition orElse :: "bool js \<Rightarrow> bool js \<Rightarrow> bool js" where
  "orElse a b = andThen a (\<lambda>v. if v then normal True else b)"

record component_state =
  st_displaySameSlide :: bool
  st_isDragging :: bool

text \<open>The condition of lines 292 to 297 (let the parent handle the scroll).\<close>

definition parentHandlesScroll :: "props \<Rightarrow> jsnum touch \<Rightarrow> bool js" where
  "parentHandlesScroll p touch =
     andAlso (normal (\<not> resistance p))
       (andAlso (normal (axis p = AxisY \<or> axis p = AxisYReverse))
          (orElse
             (andAlso
                (andThen (this_get ''indexCurrent'') (\<lambda>ic. normal (strict_eq ic (Fin 0))))
                (andThen (this_get ''startX'') (\<lambda>sx. normal (sx < pageX touch))))
             (andAlso
                (andThen (this_get ''indexCurrent'') (\<lambda>ic.
                 andThen (this_get ''props'') (\<lambda>pr :: props.
                 normal (strict_eq ic (Fin (of_nat (childrenCount pr)) - Fin 1)))))
                (andThen (this_get ''startX'') (\<lambda>sx. normal (pageX touch < sx))))))"

definition handleSwipeMove :: "env \<Rightarrow> props \<Rightarrow> dom \<Rightarrow> event \<Rightarrow> unit js" where
  "handleSwipeMove e p d ev =
     call_fn (block
       [ifThenS (\<lambda>w. \<not> started w) (block [handleTouchStart p d ev, returnStmt]),
        ifThenS (\<lambda>w. nodeWhoClaimedTheScroll w \<noteq> None
                      \<and> nodeWhoClaimedTheScroll w \<noteq> rootNode d) returnStmt,
        andThen (firstTouch ev) (\<lambda>t0.
        let touch = applyRotationMatrix t0 (axis p) in
        block
          [ifThenS (\<lambda>w. isSwiping w = None)
             (andThen (uninitialized ''startX'') (\<lambda>startX_current.
              andThen (read startY) (\<lambda>sy.
              let dx = \<bar>pageX touch - startX_current\<bar>;
                  dy = \<bar>pageY touch - sy\<bar>;
                  u_isSwiping = (dy < dx \<and> UNCERTAINTY_THRESHOLD e < dx)
              in block
                   [andThen (parentHandlesScroll p touch) (\<lambda>c.
                      ifThen c (block [this_set ''isSwiping'' False, returnStmt])),
                    ifThen (dy < dx) (emit PreventDefault),
                    andThen (read (\<lambda>w. Ref (isSwiping w))) (\<lambda>isSwiping_ref.
                      ifThen (ref_is_true isSwiping_ref \<or> UNCERTAINTY_THRESHOLD e < dy)
                        (block
                           [this_set ''isSwiping'' isSwiping_ref,
                            this_set ''startX'' (pageX touch),
                            returnStmt]))]))),
           ifThenS (\<lambda>w. \<not> to_boolean (isSwiping w)) returnStmt,
           emit PreventDefault,
           andThen (this_get ''vx'') (\<lambda>this_vx.
           andThen (this_get ''lastX'') (\<lambda>this_lastX.
             this_set ''vx''
               (this_vx * Fin (1 / 2) + (pageX touch - this_lastX) * Fin (1 / 2)))),
           this_set ''lastX'' (pageX touch),
           andThen (this_get ''startIndex'') (\<lambda>this_startIndex.
           andThen (this_get ''startX'') (\<lambda>this_startX.
           andThen (this_get ''viewLength'') (\<lambda>this_viewLength.
           let (index', startX') =
                 computeIndex e
                   \<lparr>ci_children = childrenCount p, ci_resistance = resistance p,
                    ci_pageX = pageX touch, ci_startIndex = this_startIndex,
                    ci_startX = this_startX, ci_viewLength = this_viewLength\<rparr>;
               callback = ifThen (onSwitching p) (emit (OnSwitching index' ''move''))
           in block
                [ifThenS (\<lambda>w. nodeWhoClaimedTheScroll w = None \<and> \<not> ignoreNativeScroll p)
                   (andThen (this_get ''rootNode'') (\<lambda>this_rootNode.
                    andThen (this_get ''startX'') (\<lambda>this_startX2.
                    let domTreeShapes = getDomTreeShapes e (target ev) this_rootNode;
                        hasFoundNativeHandler =
                          findNativeHandler e
                            \<lparr>fn_domTreeShapes = domTreeShapes, fn_startX = this_startX2,
                             fn_pageX = pageX touch, fn_axis = axis p\<rparr>
                    in ifThen hasFoundNativeHandler returnStmt))),
                 (if to_boolean startX' then this_set ''startX'' startX'
                  else ifThenS (\<lambda>w. nodeWhoClaimedTheScroll w = None)
                         (andThen (this_get ''rootNode'') (\<lambda>this_rootNode.
                          modify (\<lambda>w. w\<lparr>nodeWhoClaimedTheScroll := this_rootNode\<rparr>)))),
                 andThen (this_get ''setIndexCurrent'') (\<lambda>this_setIndexCurrent.
                   this_setIndexCurrent index'),
                 andThen (this_get ''state'') (\<lambda>this_state :: component_state.
                   ifThen (st_displaySameSlide this_state \<or> \<not> st_isDragging this_state)
                     (andThen (this_get ''setState'') (\<lambda>this_setState.
                        this_setState
                          (\<lparr>st_displaySameSlide = False, st_isDragging = True\<rparr>, callback)))),
                 callback])))])])"

subsection \<open>setIndexCurrent\<close>

definition setIndexCurrent :: "env \<Rightarrow> props \<Rightarrow> dom \<Rightarrow> jsnum \<Rightarrow> unit js" where
  "setIndexCurrent e p d i =
     call_fn (block
       [ifThenS (\<lambda>w. \<not> animateTransitions p
                      \<and> \<not> (case indexCurrent w of None \<Rightarrow> False | Some c \<Rightarrow> strict_eq c i))
          (handleTransitionEnd p),
        modify (\<lambda>w. w\<lparr>indexCurrent := Some i\<rparr>),
        ifThen (containerNode d \<noteq> None)
          (let t = transform (numberToString e) (axis p) (i * Fin 100)
           in block
                [modify (\<lambda>w. w\<lparr>style_webkitTransform := Some t\<rparr>),
                 modify (\<lambda>w. w\<lparr>style_transform := Some t\<rparr>)])])"

subsection \<open>checkIndexBounds and the mount effect\<close>

definition checkIndexBounds :: "env \<Rightarrow> jsnum \<Rightarrow> nat \<Rightarrow> unit js" where
  "checkIndexBounds e i childrenCount' =
     call_fn
       (emit (ConsoleWarn
          [JBool (Fin 0 \<le> i \<and> i \<le> Fin (of_nat childrenCount')),
           JStr (''react-swipeable-view: the new index: '' @ numberToString e i
                 @ '' is out of bounds: [0-''
                 @ numberToString e (Fin (of_nat childrenCount')) @ ''].'')]))"

definition useMount :: "env \<Rightarrow> props \<Rightarrow> dom \<Rightarrow> unit js" where
  "useMount e p d =
     call_fn (block
       [ifThen (NODE_ENV e \<noteq> Some ''production'')
          (checkIndexBounds e (index p) (childrenCount p)),
        setIndexCurrent e p d (index p)])"

section \<open>Release resolution\<close>

text \<open>
  The release handler (touch end) is not in the source file; the settled index follows
  section 4.3 of the specification, on exact rationals.
\<close>

text \<open>
  Modelled from the spec: the release handler is missing from the source. \<open>indexDecimal\<close>
  is "the fractional part of the continuous index relative to the nearest lower integer".
\<close>

definition indexDecimal :: "rat \<Rightarrow> rat" where
  "indexDecimal c = c - of_int \<lfloor>c\<rfloor>"

text \<open>
  Modelled from the spec: the release handler is missing from the source.
  "\<open>delta = indexDecimal\<close> if moving forward else \<open>1 - indexDecimal\<close>".
\<close>

definition releaseDelta :: "rat \<Rightarrow> bool \<Rightarrow> rat" where
  "releaseDelta c forward = (if forward then indexDecimal c else 1 - indexDecimal c)"

text \<open>
  Modelled from the spec: the release handler is missing from the source. A flick:
  "velocity magnitude exceeds a flick threshold and its sign agrees with the drag
  direction". A forward drag lowers \<open>pageX\<close> (\<open>delta = (startX - pageX) / viewLength\<close>), so
  the velocity, a filtered \<open>pageX - lastX\<close>, of a forward flick is negative.
\<close>

definition flick :: "rat \<Rightarrow> bool \<Rightarrow> rat \<Rightarrow> bool" where
  "flick threshold forward v = (threshold < \<bar>v\<bar> \<and> (if forward then v < 0 else 0 < v))"

text \<open>
  Modelled from the spec: the release handler is missing from the source. The "starting
  integer index" of the drag and the "next integer index" in its direction: a forward
  drag at continuous index \<open>c\<close> left \<open>\<lfloor>c\<rfloor>\<close> for \<open>\<lfloor>c\<rfloor> + 1\<close>, a backward drag the reverse.
\<close>

definition startingIndex :: "rat \<Rightarrow> bool \<Rightarrow> int" where
  "startingIndex c forward = (if forward then \<lfloor>c\<rfloor> else \<lfloor>c\<rfloor> + 1)"

text \<open>
  Modelled from the spec: the release handler is missing from the source (see
  \<open>startingIndex\<close>).
\<close>

definition nextIndex :: "rat \<Rightarrow> bool \<Rightarrow> int" where
  "nextIndex c forward = (if forward then \<lfloor>c\<rfloor> + 1 else \<lfloor>c\<rfloor>)"

text \<open>
  Modelled from the spec: the release handler is missing from the source. "Commit to the
  next integer index when either (a) \<open>delta > hysteresis\<close>, or (b) velocity magnitude
  exceeds a flick threshold and its sign agrees with the drag direction; otherwise snap
  back to the starting integer index."
\<close>

definition settledIndex :: "rat \<Rightarrow> rat \<Rightarrow> rat \<Rightarrow> bool \<Rightarrow> rat \<Rightarrow> int" where
  "settledIndex hysteresis threshold c forward v =
     (if hysteresis < releaseDelta c forward \<or> flick threshold forward v
      then nextIndex c forward else startingIndex c forward)"

section \<open>Sample inputs\<close>

text \<open>
  A number printer that is exact on the integers and on the special values (other
  values are printed as a fraction), for the samples below.
\<close>

fun decimal_nat :: "nat \<Rightarrow> string" where
  "decimal_nat n =
     (if n < 10 then [''0123456789'' ! n]
      else decimal_nat (n div 10) @ [''0123456789'' ! (n mod 10)])"

definition decimal_int :: "int \<Rightarrow> string" where
  "decimal_int k = (if k < 0 then CHR ''-'' # decimal_nat (nat (- k)) else decimal_nat (nat k))"

fun sample_numberToString :: "jsnum \<Rightarrow> string" where
  "sample_numberToString NaN = ''NaN''"
| "sample_numberToString PInf = ''Infinity''"
| "sample_numberToString NInf = ''-Infinity''"
| "sample_numberToString (Fin r) =
     (case quotient_of r of
        (n, d) \<Rightarrow> if d = 1 then decimal_int n else decimal_int n @ ''/'' @ decimal_int d)"

definition sample_env :: env where
  "sample_env =
     \<lparr>UNCERTAINTY_THRESHOLD = Fin 3,
      computeIndex = (\<lambda>a. (ci_startIndex a, None)),
      getDomTreeShapes = (\<lambda>_ _. []),
      findNativeHandler = (\<lambda>_. False),
      numberToString = sample_numberToString,
      NODE_ENV = Some ''development''\<rparr>"

text \<open>The refs as the component initialises them, and the default props with three slides.\<close>

definition idle_world :: world where
  "idle_world =
     \<lparr>nodeWhoClaimedTheScroll = None, indexCurrent = None, started = False,
      viewLength = Some (Fin 0), lastX = Fin 0, vx = Fin 0, startX = Fin 0, startY = Fin 0,
      isSwiping = None, startIndex = Fin 0, style_webkitTransform = None,
      style_transform = None, calls = []\<rparr>"

definition default_props :: props where
  "default_props =
     \<lparr>axis = AxisX, resistance = False, ignoreNativeScroll = False,
      animateTransitions = True, index = Fin 0, childrenCount = 3, onTouchStart = False,
      onTransitionEnd = False, onSwitching = False, displaySameSlide = True,
      isDragging = False\<rparr>"

text \<open>A mounted component at rest: root node 0, container node 1, 300 by 200 pixels.\<close>

definition sample_dom :: dom where
  "sample_dom =
     \<lparr>rootNode = Some 0, containerNode = Some 1, rootWidth = Fin 300, rootHeight = Fin 200,
      webkitTransformValue = [], transformValue = ''none'',
      paddingLeft = ''0px'', paddingRight = ''0px''\<rparr>"

definition touch_event :: "rat \<Rightarrow> rat \<Rightarrow> event" where
  "touch_event px py = \<lparr>touches = [\<lparr>pageX = Fin px, pageY = Fin py\<rparr>], target = 1\<rparr>"

text \<open>
  Two documents caught with a transform on the container: one whose content box is
  20 - 10 - 10 = 0 pixels wide while the container is translated by -100 pixels, and one
  collapsed to zero width with a zero translation.
\<close>

definition pixel_dom :: dom where
  "pixel_dom =
     sample_dom\<lparr>transformValue := ''matrix(1, 0, 0, 1, -100, 0)'', rootWidth := Fin 20,
       paddingLeft := ''10px'', paddingRight := ''10px''\<rparr>"

definition collapsed_dom :: dom where
  "collapsed_dom =
     sample_dom\<lparr>transformValue := ''matrix(1, 0, 0, 1, 0, 0)'', rootWidth := Fin 0\<rparr>"

section \<open>Properties\<close>

subsection \<open>Unfolding rules\<close>

lemmas js_defs = normal_def returnStmt_def throw_def andThen_def call_fn_def read_def modify_def
  emit_def ifThen_def ifThenS_def this_get_def this_set_def firstTouch_def getComputedStyle_def
  defined_def andAlso_def orElse_def uninitialized_def Let_def

lemmas sample_defs = sample_env_def default_props_def sample_dom_def idle_world_def
  touch_event_def decimal_int_def

lemmas rotation_defs = applyRotationMatrix_def applyMatrix_def rotationMatrix_def
  zero_jsnum_def one_jsnum_def minus_jsnum_def

lemma times_jsnum_commute: "a * b = b * (a :: jsnum)"
  by (cases a; cases b) (simp_all add: mult.commute)

subsection \<open>Step rules for running statements\<close>

text \<open>
  One rule for each kind of statement at the head of a sequence. The congruence rules
  keep the simplifier on the statement that runs next, away from what follows it.
\<close>

lemma andThen_spine: "m = m' \<Longrightarrow> andThen m f = andThen m' f" by simp
lemma block_frozen: "block ss = block ss" by (rule refl)
lemma call_fn_frozen: "call_fn b = call_fn b" by (rule refl)
lemma ifThen_spine: "c = c' \<Longrightarrow> ifThen c b = ifThen c' b" by simp
lemma ifThenS_spine: "c = c' \<Longrightarrow> ifThenS c b = ifThenS c' b" by simp

lemmas spine = andThen_spine block_frozen call_fn_frozen ifThen_spine ifThenS_spine

lemma run_atoms:
  "run (normal v) w = (Normal v, w)"
  "run (throw er) w = (Throw er, w)"
  "run returnStmt w = (Return, w)"
  "run (this_get nm) w = (Throw TypeError, w)"
  "run (this_set nm x) w = (Throw TypeError, w)"
  "run (uninitialized nm) w = (Throw ReferenceError, w)"
  "run (modify g) w = (Normal (), g w)"
  "run (read h) w = (Normal (h w), w)"
  "run (emit c) w = (Normal (), w\<lparr>calls := calls w @ [c]\<rparr>)"
  "run (ifThen cb b) w = (if cb then run b w else (Normal (), w))"
  "run (ifThenS cs b) w = (if cs w then run b w else (Normal (), w))"
  "run (if cb then b1 else b2) w = (if cb then run b1 w else run b2 w)"
  "run (Let x0 g0) w = run (g0 x0) w"
  "run (block []) w = (Normal (), w)"
  "run (block (s # ss)) w = run (andThen s (\<lambda>_. block ss)) w"
  "run (firstTouch ev) w = (case touches ev of [] \<Rightarrow> (Throw TypeError, w) | t # ts \<Rightarrow> (Normal t, w))"
  "run (getComputedStyle nd) w = (case nd of None \<Rightarrow> (Throw TypeError, w) | Some _ \<Rightarrow> (Normal (), w))"
  "run (defined ov) w = (case ov of None \<Rightarrow> (Throw TypeError, w) | Some x \<Rightarrow> (Normal x, w))"
  "run (call_fn b) w = (case run b w of (Return, w') \<Rightarrow> (Normal (), w') | r \<Rightarrow> r)"
  by (simp_all add: run_def js_defs split: list.splits option.splits)

lemma run_andThen:
  "run (andThen m f) w =
     (case run m w of
        (Normal v, w') \<Rightarrow> run (f v) w'
      | (Return, w') \<Rightarrow> (Return, w')
      | (Throw er, w') \<Rightarrow> (Throw er, w'))"
  by (simp add: run_def andThen_def split: prod.splits completion.splits)

lemma run_parentHandlesScroll:
  "run (parentHandlesScroll p touch) w =
     (if \<not> resistance p \<and> (axis p = AxisY \<or> axis p = AxisYReverse)
      then (Throw TypeError, w) else (Normal False, w))"
  by (simp add: run_def parentHandlesScroll_def js_defs)

lemma run_steps:
  "run (andThen (normal v) f) w = run (f v) w"
  "run (andThen (throw er) f) w = (Throw er, w)"
  "run (andThen returnStmt f) w = (Return, w)"
  "run (andThen (this_get nm) f) w = (Throw TypeError, w)"
  "run (andThen (this_set nm x) f2) w = (Throw TypeError, w)"
  "run (andThen (uninitialized nm) f9) w = (Throw ReferenceError, w)"
  "run (andThen (modify g) f2) w = run (f2 ()) (g w)"
  "run (andThen (read h) f3) w = run (f3 (h w)) w"
  "run (andThen (emit c) f2) w = run (f2 ()) (w\<lparr>calls := calls w @ [c]\<rparr>)"
  "run (andThen (ifThen cb b) f2) w = (if cb then run (andThen b f2) w else run (f2 ()) w)"
  "run (andThen (ifThenS cs b) f2) w = (if cs w then run (andThen b f2) w else run (f2 ()) w)"
  "run (andThen (andThen m g2) f4) w = run (andThen m (\<lambda>x. andThen (g2 x) f4)) w"
  "run (andThen (if cb then m1 else m2) f5) w
     = (if cb then run (andThen m1 f5) w else run (andThen m2 f5) w)"
  "run (andThen (Let x0 g0) f5) w = run (andThen (g0 x0) f5) w"
  "run (andThen (block []) f2) w = run (f2 ()) w"
  "run (andThen (block (s # ss)) f2) w = run (andThen s (\<lambda>_. andThen (block ss) f2)) w"
  "run (andThen (firstTouch ev) f6) w
     = (case touches ev of [] \<Rightarrow> (Throw TypeError, w) | t # ts \<Rightarrow> run (f6 t) w)"
  "run (andThen (getComputedStyle nd) f2) w
     = (case nd of None \<Rightarrow> (Throw TypeError, w) | Some _ \<Rightarrow> run (f2 ()) w)"
  "run (andThen (defined ov) f7) w
     = (case ov of None \<Rightarrow> (Throw TypeError, w) | Some x \<Rightarrow> run (f7 x) w)"
  "run (andThen (parentHandlesScroll p touch) f8) w =
     (if \<not> resistance p \<and> (axis p = AxisY \<or> axis p = AxisYReverse)
      then (Throw TypeError, w) else run (f8 False) w)"
  "run (andThen (call_fn b) f2) w =
     (case run b w of
        (Normal v, w') \<Rightarrow> run (f2 ()) w'
      | (Return, w') \<Rightarrow> run (f2 ()) w'
      | (Throw er, w') \<Rightarrow> (Throw er, w'))"
  by (auto simp add: run_andThen run_atoms run_parentHandlesScroll
      split: prod.splits completion.splits list.splits option.splits)

lemmas exec = run_steps run_atoms

lemma call_fn_never_returns: "fst (call_fn b w) \<noteq> Return"
  by (simp add: call_fn_def split: prod.splits completion.splits)

subsection \<open>Modulo helper\<close>

lemma smod_pos_divisor:
  fixes n m :: int
  assumes "0 < m"
  shows "(if n smod m < 0 then n smod m + m else n smod m) = n mod m"
proof (cases "0 \<le> n")
  case True
  moreover have "0 \<le> n mod m" using assms by simp
  ultimately show ?thesis
    using assms by (simp add: smod_int_alt_def sgn_if not_less)
next
  case False
  then have neg: "n < 0" by simp
  have eq: "n smod m = - ((- n) mod m)"
    using neg assms by (simp add: smod_int_alt_def sgn_if)
  show ?thesis
  proof (cases "(- n) mod m = 0")
    case True
    then have "n mod m = 0"
      by (metis dvd_minus_iff mod_eq_0_iff_dvd)
    with True eq show ?thesis by simp
  next
    case False
    have "0 \<le> (- n) mod m" using assms by simp
    with False have pos: "0 < (- n) mod m" by linarith
    have "n mod m = m - (- n) mod m"
      using False assms by (metis minus_minus zmod_zminus1_eq_if)
    with pos eq show ?thesis by simp
  qed
qed

declare bitlen.simps [simp del]

lemma bitlen_le: "n < 2 ^ j \<Longrightarrow> bitlen n \<le> j"
proof (induction j arbitrary: n)
  case 0
  then show ?case by (subst bitlen.simps) simp
next
  case (Suc j)
  show ?case
  proof (cases "n = 0")
    case True
    then show ?thesis by (subst bitlen.simps) simp
  next
    case False
    from Suc.prems have "n div 2 < 2 ^ j" by simp
    then have "bitlen (n div 2) \<le> j" by (rule Suc.IH)
    with False show ?thesis by (subst bitlen.simps) simp
  qed
qed

lemma round_double_small:
  assumes "\<bar>k\<bar> < 2 ^ 53"
  shows "round_double k = k"
proof -
  from assms have "nat \<bar>k\<bar> < 2 ^ 53"
    by (simp add: nat_less_iff)
  then have "bitlen (nat \<bar>k\<bar>) \<le> 53" by (rule bitlen_le)
  then have "bitlen (nat \<bar>k\<bar>) - 53 = 0" by simp
  then show ?thesis
    by (simp add: round_double_def round_to_multiple_def)
qed

lemma smod_bounds:
  fixes n m :: int
  assumes "0 < m"
  shows "- m < n smod m" and "n smod m < m"
proof -
  have a: "0 \<le> \<bar>n\<bar> mod m" and b: "\<bar>n\<bar> mod m < m"
    using assms by simp_all
  have c: "n smod m = \<bar>n\<bar> mod m \<or> n smod m = - (\<bar>n\<bar> mod m)"
    using assms by (auto simp add: smod_int_alt_def sgn_if)
  from a b c assms show "- m < n smod m" by linarith
  from a b c assms show "n smod m < m" by linarith
qed

lemma bitlen_eq: "2 ^ j \<le> n \<Longrightarrow> n < 2 ^ Suc j \<Longrightarrow> bitlen n = Suc j"
proof (induction j arbitrary: n)
  case 0
  then have "n = 1" by simp
  then show ?case by (simp add: bitlen.simps [of "Suc 0"] bitlen.simps [of 0])
next
  case (Suc j)
  from Suc.prems have pos: "n \<noteq> 0" by auto
  from Suc.prems have "2 ^ j \<le> n div 2" and "n div 2 < 2 ^ Suc j" by simp_all
  then have "bitlen (n div 2) = Suc j" by (rule Suc.IH)
  with pos show ?case by (subst bitlen.simps) simp
qed

lemma round_double_53:
  assumes "2 ^ 53 \<le> k" and "k < 2 ^ 54"
  shows "round_double k = round_to_multiple 2 k"
proof -
  from assms have "2 ^ 53 \<le> nat \<bar>k\<bar>" and "nat \<bar>k\<bar> < 2 ^ Suc 53"
    by (simp_all add: le_nat_iff nat_less_iff)
  then have "bitlen (nat \<bar>k\<bar>) = Suc 53" by (rule bitlen_eq)
  then show ?thesis by (simp add: round_double_def)
qed

lemma round_double_54:
  assumes "2 ^ 54 \<le> k" and "k < 2 ^ 55"
  shows "round_double k = round_to_multiple 4 k"
proof -
  from assms have "2 ^ 54 \<le> nat \<bar>k\<bar>" and "nat \<bar>k\<bar> < 2 ^ Suc 54"
    by (simp_all add: le_nat_iff nat_less_iff)
  then have "bitlen (nat \<bar>k\<bar>) = Suc 54" by (rule bitlen_eq)
  then show ?thesis by (simp add: round_double_def)
qed

text \<open>
  C9, as amended. For every integer \<open>n\<close> and every positive integer \<open>m\<close> of at most
  \<open>2^53\<close> the modulo helper returns a value \<open>r\<close> with \<open>0 \<le> r < m\<close> that is congruent to
  \<open>n\<close> modulo \<open>m\<close>; and \<open>mod(-1, 3) = 2\<close>.
\<close>

theorem mod_fc_range_congruent_bounded:
  "0 < m \<Longrightarrow> m \<le> 2 ^ 53 \<Longrightarrow>
     (\<exists>r. mod_fc n m = Some r \<and> 0 \<le> r \<and> r < m \<and> m dvd (r - n)) \<and> mod_fc (- 1) 3 = Some 2"
proof -
  assume m: "0 < m" and bound: "m \<le> 2 ^ 53"
  have exact: "double_plus (n smod m) m = n smod m + m" if "n smod m < 0"
  proof -
    from smod_bounds [OF m, of n] that have "0 < n smod m + m" and "n smod m + m < m"
      by simp_all
    with bound have "\<bar>n smod m + m\<bar> < 2 ^ 53" by simp
    then show ?thesis
      unfolding double_plus_def by (rule round_double_small)
  qed
  have r: "mod_fc n m = Some (n mod m)"
    using m smod_pos_divisor [OF m, of n] exact
    by (auto simp add: mod_fc_def js_rem_def)
  have d: "m dvd (n mod m - n)"
    by (metis dvd_minus_iff minus_diff_eq minus_mod_eq_mult_div dvd_triv_left)
  have "\<bar>- 1 + 3 :: int\<bar> < 2 ^ 53" by simp
  then have "round_double (- 1 + 3) = - 1 + 3" by (rule round_double_small)
  then have e: "mod_fc (- 1) 3 = Some 2"
    by (simp add: mod_fc_def js_rem_def smod_int_alt_def double_plus_def)
  from m r d e show ?thesis by simp
qed

theorem mod_fc_range_congruent_bounded_witness:
  "(0::int) < 5 \<and> (5::int) \<le> 2 ^ 53 \<and> mod_fc (- 7) 5 = Some 3 \<and> mod_fc (- 1) 3 = Some 2"
proof -
  have h: "(0::int) < 5" and b: "(5::int) \<le> 2 ^ 53" by simp_all
  from mod_fc_range_congruent_bounded [OF h b, of "- 7"]
  obtain r where r: "mod_fc (- 7) 5 = Some r" "5 dvd (r - (- 7))" "0 \<le> r" "r < 5"
    and e: "mod_fc (- 1) 3 = Some 2"
    by blast
  from r have "r = 3" by presburger
  with r e h b show ?thesis by simp
qed

text \<open>
  The claim as stated fails above \<open>2^53\<close>, where the sum \<open>q + m\<close> is rounded: for
  \<open>m = 2^53 + 2\<close> the helper returns \<open>2^53\<close> for \<open>-1\<close>, which is not congruent to \<open>-1\<close>, and
  for \<open>m = 2^54\<close> it returns \<open>m\<close> itself. Both divisors are doubles.
\<close>

theorem mod_fc_rounding_counterexample:
  "is_double (- 1) \<and> is_double 9007199254740994 \<and> is_double 18014398509481984
   \<and> mod_fc (- 1) 9007199254740994 = Some 9007199254740992
   \<and> \<not> (9007199254740994 :: int) dvd (9007199254740992 - (- 1))
   \<and> mod_fc (- 1) 18014398509481984 = Some 18014398509481984"
proof -
  have d1: "is_double (- 1)"
    unfolding is_double_def by (rule round_double_small) simp
  have d2: "is_double 9007199254740994"
    unfolding is_double_def
    by (simp add: round_double_53 [of 9007199254740994] round_to_multiple_def)
  have d3: "is_double 18014398509481984"
    unfolding is_double_def
    by (simp add: round_double_54 [of 18014398509481984] round_to_multiple_def)
  have s1: "double_plus (- 1) 9007199254740994 = 9007199254740992"
    unfolding double_plus_def
    by (simp add: round_double_53 [of 9007199254740993] round_to_multiple_def)
  have s2: "double_plus (- 1) 18014398509481984 = 18014398509481984"
    unfolding double_plus_def
    by (simp add: round_double_53 [of 18014398509481983] round_to_multiple_def)
  have m1: "mod_fc (- 1) 9007199254740994 = Some 9007199254740992"
    by (simp add: mod_fc_def js_rem_def smod_int_alt_def s1)
  have m2: "mod_fc (- 1) 18014398509481984 = Some 18014398509481984"
    by (simp add: mod_fc_def js_rem_def smod_int_alt_def s2)
  have nd: "\<not> (9007199254740994 :: int) dvd (9007199254740992 - (- 1))"
    by presburger
  from d1 d2 d3 m1 m2 nd show ?thesis by blast
qed

subsection \<open>Rotation\<close>

text \<open>
  C7. For every axis and every sample, applying the axis's rotation matrix and then its
  transpose gives the sample back, and every matrix of the table times its transpose is
  the identity. The samples are taken in a commutative ring (exact arithmetic); the last
  part is the same round trip on numbers of the host language with finite coordinates.
\<close>

theorem rotation_transpose_inverse:
  fixes t :: "('a :: comm_ring_1) touch"
  shows "applyMatrix (transpose_rotation (rotationMatrix a)) (applyRotationMatrix t a) = t
    \<and> matrix_product (rotationMatrix a) (transpose_rotation (rotationMatrix a))
        = (identity_rotation :: 'a rotation)
    \<and> applyMatrix (transpose_rotation (rotationMatrix a))
          (applyRotationMatrix \<lparr>pageX = Fin x, pageY = Fin y\<rparr> a)
        = \<lparr>pageX = Fin x, pageY = Fin y\<rparr>"
  by (cases a)
    (simp_all add: applyRotationMatrix_def applyMatrix_def rotationMatrix_def
      transpose_rotation_def matrix_product_def identity_rotation_def
      zero_jsnum_def one_jsnum_def)

subsection \<open>Applying the index to the container\<close>

text \<open>
  C6. For every continuous index \<open>i\<close> and every axis, \<open>setIndexCurrent\<close> writes to the
  container (when it is mounted) the transform of the axis table at \<open>100 * i\<close>:
  \<open>translate(-100i%, 0)\<close> for \<open>x\<close>, \<open>translate(100i%, 0)\<close> for \<open>x-reverse\<close>,
  \<open>translate(0, -100i%)\<close> for \<open>y\<close> and \<open>translate(0, 100i%)\<close> for \<open>y-reverse\<close>, the
  number printed as the platform prints it.
\<close>

theorem setIndexCurrent_transform:
  assumes "containerNode d = Some c"
  shows "fst (setIndexCurrent e p d i w) = Normal ()
    \<and> indexCurrent (snd (setIndexCurrent e p d i w)) = Some i
    \<and> style_transform (snd (setIndexCurrent e p d i w)) =
        Some (case axis p of
                AxisX \<Rightarrow> ''translate('' @ numberToString e (- (Fin 100 * i)) @ ''%, 0)''
              | AxisXReverse \<Rightarrow> ''translate('' @ numberToString e (Fin 100 * i) @ ''%, 0)''
              | AxisY \<Rightarrow> ''translate(0, '' @ numberToString e (- (Fin 100 * i)) @ ''%)''
              | AxisYReverse \<Rightarrow> ''translate(0, '' @ numberToString e (Fin 100 * i) @ ''%)'')
    \<and> style_webkitTransform (snd (setIndexCurrent e p d i w)) =
        style_transform (snd (setIndexCurrent e p d i w))"
proof -
  have comm: "i * Fin 100 = Fin 100 * i" by (rule times_jsnum_commute)
  show ?thesis
    using assms
    by (cases "axis p")
      (simp_all add: setIndexCurrent_def handleTransitionEnd_def js_defs transform_def comm)
qed

theorem setIndexCurrent_transform_witness:
  "containerNode sample_dom = Some 1
   \<and> style_transform (snd (setIndexCurrent sample_env default_props sample_dom (Fin 2) idle_world))
       = Some ''translate(-200%, 0)''"
proof -
  have h: "containerNode sample_dom = Some 1" by (simp add: sample_dom_def)
  have "style_transform (snd (setIndexCurrent sample_env default_props sample_dom (Fin 2) idle_world))
      = Some (case axis default_props of
                AxisX \<Rightarrow> ''translate('' @ numberToString sample_env (- (Fin 100 * Fin 2)) @ ''%, 0)''
              | AxisXReverse \<Rightarrow> ''translate('' @ numberToString sample_env (Fin 100 * Fin 2) @ ''%, 0)''
              | AxisY \<Rightarrow> ''translate(0, '' @ numberToString sample_env (- (Fin 100 * Fin 2)) @ ''%)''
              | AxisYReverse \<Rightarrow> ''translate(0, '' @ numberToString sample_env (Fin 100 * Fin 2) @ ''%)'')"
    using setIndexCurrent_transform [OF h, of sample_env default_props "Fin 2" idle_world]
    by blast
  then show ?thesis
    using h by (simp add: sample_defs)
qed

subsection \<open>The bounds check at mount\<close>

text \<open>
  Outside production the mount effect calls \<open>console.warn\<close> for every index and every
  number of children.
\<close>

lemma mount_always_warns:
  assumes "NODE_ENV e \<noteq> Some ''production''"
  shows "\<exists>b msg rest. calls (snd (useMount e p d w)) = calls w @ ConsoleWarn [JBool b, JStr msg] # rest"
proof -
  have "\<exists>b msg rest. calls (snd (run (useMount e p d) w)) = calls w @ ConsoleWarn [JBool b, JStr msg] # rest"
    using assms
    unfolding useMount_def checkIndexBounds_def setIndexCurrent_def handleTransitionEnd_def
    apply (simp only: exec cong: spine)
    apply (simp add: Let_def)
    done
  then show ?thesis by (simp add: run_def)
qed

text \<open>
  C1. The claim is that a warning is emitted exactly when the index is outside
  \<open>[0, childCount - 1]\<close>. At mount, outside production, the code calls \<open>console.warn\<close>
  with the truth value of the bounds test as first argument, whatever that value is:
  with one child, index \<open>0\<close> (in bounds) is warned about just as index \<open>7\<close> is.
\<close>

theorem mount_warns_for_index_in_bounds:
  "calls (snd (useMount sample_env (default_props\<lparr>index := Fin 0, childrenCount := 1\<rparr>)
      sample_dom idle_world))
   = [ConsoleWarn [JBool True,
        JStr ''react-swipeable-view: the new index: 0 is out of bounds: [0-1].'']]
   \<and> calls (snd (useMount sample_env (default_props\<lparr>index := Fin 7, childrenCount := 1\<rparr>)
      sample_dom idle_world))
   = [ConsoleWarn [JBool False,
        JStr ''react-swipeable-view: the new index: 7 is out of bounds: [0-1].'']]"
  by (simp add: useMount_def checkIndexBounds_def setIndexCurrent_def handleTransitionEnd_def
      transform_def js_defs sample_defs)

subsection \<open>The move handler\<close>

text \<open>
  C3, as amended. For every move event handled by an instance whose session has started,
  if the ownership slot holds an identity other than this instance's root node, the
  handler returns at once and leaves the whole state as it was (session, continuous
  index, container style, calls); so of two started instances with different root nodes
  at least one is left unchanged by a move once the slot is claimed.
\<close>

theorem move_ignored_when_claimed_by_other:
  assumes "started w" and "nodeWhoClaimedTheScroll w = Some n"
  shows "(rootNode d \<noteq> Some n \<longrightarrow> handleSwipeMove e p d ev w = (Normal (), w))
    \<and> (started w' \<and> nodeWhoClaimedTheScroll w' = Some n \<and> rootNode d' \<noteq> rootNode d \<longrightarrow>
         handleSwipeMove e p d ev w = (Normal (), w)
         \<or> handleSwipeMove e' p' d' ev' w' = (Normal (), w'))"
proof -
  have one: "handleSwipeMove e0 p0 d0 ev0 w0 = (Normal (), w0)"
    if "started w0" and "nodeWhoClaimedTheScroll w0 = Some n" and "rootNode d0 \<noteq> Some n"
    for e0 p0 d0 ev0 w0
    using that by (simp add: handleSwipeMove_def js_defs)
  have left: "rootNode d \<noteq> Some n \<longrightarrow> handleSwipeMove e p d ev w = (Normal (), w)"
    using assms one by blast
  have both: "handleSwipeMove e p d ev w = (Normal (), w)
      \<or> handleSwipeMove e' p' d' ev' w' = (Normal (), w')"
    if other: "started w'" "nodeWhoClaimedTheScroll w' = Some n" "rootNode d' \<noteq> rootNode d"
  proof (cases "rootNode d = Some n")
    case True
    with other have "rootNode d' \<noteq> Some n" by simp
    with other one show ?thesis by blast
  next
    case False
    with assms one show ?thesis by blast
  qed
  from left both show ?thesis by blast
qed

theorem move_ignored_when_claimed_by_other_witness:
  "started (idle_world\<lparr>started := True, nodeWhoClaimedTheScroll := Some 7\<rparr>)
   \<and> rootNode sample_dom \<noteq> Some 7
   \<and> handleSwipeMove sample_env default_props sample_dom (touch_event 10 0)
        (idle_world\<lparr>started := True, nodeWhoClaimedTheScroll := Some 7\<rparr>)
      = (Normal (), idle_world\<lparr>started := True, nodeWhoClaimedTheScroll := Some 7\<rparr>)"
proof -
  let ?w = "idle_world\<lparr>started := True, nodeWhoClaimedTheScroll := Some 7\<rparr>"
  have h1: "started ?w" by simp
  have h2: "nodeWhoClaimedTheScroll ?w = Some 7" by simp
  have h3: "rootNode sample_dom \<noteq> Some 7" by (simp add: sample_dom_def)
  from move_ignored_when_claimed_by_other [OF h1 h2, of sample_dom sample_env default_props
      "touch_event 10 0"] h3
  have "handleSwipeMove sample_env default_props sample_dom (touch_event 10 0) ?w
      = (Normal (), ?w)"
    by blast
  with h1 h3 show ?thesis by blast
qed

text \<open>
  The claim as stated fails before the session has started: the handler then runs the
  touch-start handler, which sets up the session, before it looks at the slot.
\<close>

theorem move_before_start_counterexample:
  "nodeWhoClaimedTheScroll (idle_world\<lparr>nodeWhoClaimedTheScroll := Some 7\<rparr>) = Some 7
   \<and> rootNode sample_dom = Some 0
   \<and> handleSwipeMove sample_env default_props sample_dom (touch_event 10 20)
        (idle_world\<lparr>nodeWhoClaimedTheScroll := Some 7\<rparr>)
      = (Normal (), idle_world\<lparr>nodeWhoClaimedTheScroll := Some 7, started := True,
           viewLength := Some (Fin 300), lastX := Fin 10, startX := Fin 10, startY := Fin 20\<rparr>)"
  by (simp add: handleSwipeMove_def handleTouchStart_def handleSwipeStart_def
      computedTransform_def rectLength_def js_defs sample_defs rotation_defs)

text \<open>
  What a move event can do at all. Once the session has started, the handler leaves the
  state as it was but for at most one \<open>preventDefault\<close> call: an undetermined move stops
  at the read of \<open>startX\<close> on line 286, and every write of the source goes to \<open>this\<close>.
  Before the session has started, it is the touch-start handler. So a move never
  records a decision about the gesture.
\<close>

lemma started_move_cases:
  assumes "started w"
  shows "snd (run (handleSwipeMove e p d ev) w) = w
    \<or> snd (run (handleSwipeMove e p d ev) w) = w\<lparr>calls := calls w @ [PreventDefault]\<rparr>"
proof (cases "touches ev")
  case Nil
  with assms show ?thesis
    unfolding handleSwipeMove_def
    apply (simp only: exec cong: spine)
    apply simp
    done
next
  case (Cons t ts)
  note tch = Cons
  show ?thesis
  proof (cases "isSwiping w")
    case None
    with assms tch show ?thesis
      unfolding handleSwipeMove_def
      apply (simp only: exec cong: spine)
      apply simp
      done
  next
    case (Some n)
    with assms tch show ?thesis
      unfolding handleSwipeMove_def
      apply (simp only: exec cong: spine)
      apply (simp add: to_boolean_def)
      done
  qed
qed

lemma started_move_only_logs:
  assumes "started w"
  shows "snd (handleSwipeMove e p d ev w) = w
    \<or> snd (handleSwipeMove e p d ev w) = w\<lparr>calls := calls w @ [PreventDefault]\<rparr>"
  using started_move_cases [OF assms] by (simp add: run_def)

lemma unstarted_move_is_touch_start:
  assumes "\<not> started w"
  shows "handleSwipeMove e p d ev w = handleTouchStart p d ev w"
proof -
  obtain c w' where r: "run (handleTouchStart p d ev) w = (c, w')"
    by (cases "run (handleTouchStart p d ev) w")
  have "fst (handleTouchStart p d ev w) \<noteq> Return"
    unfolding handleTouchStart_def by (rule call_fn_never_returns)
  with r have nr: "c \<noteq> Return" by (simp add: run_def)
  have "run (handleSwipeMove e p d ev) w = (c, w')"
    using assms r nr
    unfolding handleSwipeMove_def
    apply (simp only: exec run_andThen [of "handleTouchStart p d ev"] cong: spine)
    apply (cases c)
      apply (simp_all add: run_atoms)
    done
  with r show ?thesis by (simp add: run_def)
qed

lemma handleSwipeStart_isSwiping:
  "isSwiping (snd (handleSwipeStart p d ev w)) = None \<or> snd (handleSwipeStart p d ev w) = w"
proof (cases "touches ev")
  case Nil
  then show ?thesis by (simp add: handleSwipeStart_def js_defs)
next
  case (Cons t ts)
  then show ?thesis
    by (cases "containerNode d"; cases "transformValues (computedTransform d)"; cases "rootNode d")
      (simp_all add: handleSwipeStart_def js_defs)
qed

lemma handleTouchStart_isSwiping:
  "isSwiping (snd (handleTouchStart p d ev w)) = None \<or> isSwiping (snd (handleTouchStart p d ev w)) = isSwiping w"
proof -
  have a: "snd (handleTouchStart p d ev w)
      = snd (handleSwipeStart p d ev (if onTouchStart p then w\<lparr>calls := calls w @ [OnTouchStart]\<rparr> else w))"
    by (simp add: handleTouchStart_def js_defs split: prod.splits completion.splits)
  show ?thesis
    using handleSwipeStart_isSwiping [of p d ev "if onTouchStart p then w\<lparr>calls := calls w @ [OnTouchStart]\<rparr> else w"]
    by (auto simp add: a)
qed

lemma move_never_decides:
  "isSwiping (snd (handleSwipeMove e p d ev (w\<lparr>isSwiping := None\<rparr>))) = None"
proof (cases "started w")
  case True
  then have "started (w\<lparr>isSwiping := None\<rparr>)" by simp
  from started_move_only_logs [OF this, of e p d ev] show ?thesis by auto
next
  case False
  then have "\<not> started (w\<lparr>isSwiping := None\<rparr>)" by simp
  from unstarted_move_is_touch_start [OF this, of e p d ev]
    handleTouchStart_isSwiping [of p d ev "w\<lparr>isSwiping := None\<rparr>"]
  show ?thesis by auto
qed

text \<open>
  Two kinds of move always throw: an undetermined move (at the read of \<open>startX\<close> on line
  286, before anything else is done), and a move of a confirmed swipe (at the read of
  \<open>this.vx\<close>, after \<open>preventDefault\<close>).
\<close>

lemma confirmed_swipe_move_always_throws:
  assumes "started w"
    and "nodeWhoClaimedTheScroll w = None \<or> nodeWhoClaimedTheScroll w = rootNode d"
    and "touches ev \<noteq> []" and "to_boolean (isSwiping w)"
  shows "handleSwipeMove e p d ev w = (Throw TypeError, w\<lparr>calls := calls w @ [PreventDefault]\<rparr>)"
proof -
  from assms(3) obtain t ts where tch: "touches ev = t # ts" by (cases "touches ev") auto
  from assms(4) obtain n where sw: "isSwiping w = Some n" and tr: "truthy n"
    by (cases "isSwiping w") (auto simp add: to_boolean_def)
  have "run (handleSwipeMove e p d ev) w
      = (Throw TypeError, w\<lparr>calls := calls w @ [PreventDefault]\<rparr>)"
    using assms(1,2) tch sw tr
    unfolding handleSwipeMove_def
    apply (simp only: exec cong: spine)
    apply (auto simp add: to_boolean_def)
    done
  then show ?thesis by (simp add: run_def)
qed

lemma undetermined_move_always_throws:
  assumes "started w"
    and "nodeWhoClaimedTheScroll w = None \<or> nodeWhoClaimedTheScroll w = rootNode d"
    and "touches ev \<noteq> []" and "isSwiping w = None"
  shows "handleSwipeMove e p d ev w = (Throw ReferenceError, w)"
proof -
  from assms(3) obtain t ts where tch: "touches ev = t # ts" by (cases "touches ev") auto
  have "run (handleSwipeMove e p d ev) w = (Throw ReferenceError, w)"
    using assms(1,2,4) tch
    unfolding handleSwipeMove_def
    apply (simp only: exec cong: spine)
    apply auto
    done
  then show ?thesis by (simp add: run_def)
qed

text \<open>
  C4. The claim is that an undetermined gesture is confirmed as a swipe when \<open>dx > dy\<close>
  and \<open>dx\<close> exceeds the threshold, as a non-swipe when \<open>dy\<close> dominates, and that
  \<open>preventDefault\<close> is called while \<open>dx > dy\<close>. In the code the computation of \<open>dx\<close> on line
  286 reads the constant \<open>startX\<close> of line 326 before its declaration and throws: a move
  by \<open>(10, 0)\<close> and a move by \<open>(0, 10)\<close> both end in a \<open>ReferenceError\<close> with the gesture
  still undetermined and no \<open>preventDefault\<close> call.
\<close>

theorem undetermined_move_example:
  "handleSwipeMove sample_env default_props sample_dom (touch_event 10 0)
      (idle_world\<lparr>started := True\<rparr>)
    = (Throw ReferenceError, idle_world\<lparr>started := True\<rparr>)
  \<and> handleSwipeMove sample_env default_props sample_dom (touch_event 0 10)
      (idle_world\<lparr>started := True\<rparr>)
    = (Throw ReferenceError, idle_world\<lparr>started := True\<rparr>)"
  by (simp add: handleSwipeMove_def js_defs sample_defs rotation_defs)

text \<open>
  C5. The claim describes what a confirmed-swipe move does after the index computation.
  In the code such a move calls \<open>preventDefault\<close> and then reads \<open>this.vx\<close>, which throws:
  no start point is replaced, no ownership is claimed, no transform is applied and the
  switching observer is not notified, whatever the helpers and props are.
\<close>

theorem confirmed_swipe_move_throws:
  "handleSwipeMove e p d (touch_event 10 0)
      (idle_world\<lparr>started := True, isSwiping := Some (Fin 1)\<rparr>)
    = (Throw TypeError,
       idle_world\<lparr>started := True, isSwiping := Some (Fin 1), calls := [PreventDefault]\<rparr>)"
  by (simp add: handleSwipeMove_def to_boolean_def js_defs idle_world_def touch_event_def)

text \<open>
  C8. The claim is that with resistance disabled, on a vertical axis, at index 0 and
  dragging further back, the gesture is decided non-swipe and the handler returns. In
  the code the handler throws on line 286, at the read of the constant \<open>startX\<close>, before
  it reaches the test of line 292: the gesture stays undetermined.
\<close>

theorem vertical_edge_move_throws:
  "handleSwipeMove e (p\<lparr>resistance := False, axis := AxisY\<rparr>) d (touch_event 0 10)
      (idle_world\<lparr>started := True, indexCurrent := Some (Fin 0)\<rparr>)
    = (Throw ReferenceError, idle_world\<lparr>started := True, indexCurrent := Some (Fin 0)\<rparr>)"
  by (simp add: handleSwipeMove_def js_defs idle_world_def touch_event_def)

subsection \<open>Release resolution\<close>

text \<open>
  C2. On release the settled index is the next integer exactly when \<open>delta > hysteresis\<close>
  or the velocity is a flick in the drag direction, and the starting integer index
  otherwise; with hysteresis 0.6 a forward drag released at 2.5 (without a flick)
  settles at 2 and one released at 2.65 settles at 3.
\<close>

theorem release_resolution:
  "(settledIndex h ft c fwd v = nextIndex c fwd) = (h < releaseDelta c fwd \<or> flick ft fwd v)
   \<and> (\<not> (h < releaseDelta c fwd \<or> flick ft fwd v) \<longrightarrow>
        settledIndex h ft c fwd v = startingIndex c fwd)
   \<and> (\<not> flick ft True v \<longrightarrow> settledIndex (6 / 10) ft (25 / 10) True v = 2)
   \<and> settledIndex (6 / 10) ft (265 / 100) True v = 3"
proof -
  have f1: "\<lfloor>5 / 2 :: rat\<rfloor> = 2" by (simp add: floor_eq_iff)
  have f2: "\<lfloor>53 / 20 :: rat\<rfloor> = 2" by (simp add: floor_eq_iff)
  show ?thesis
    by (simp add: settledIndex_def nextIndex_def startingIndex_def releaseDelta_def
        indexDecimal_def f1 f2)
qed

theorem release_resolution_witness:
  "\<not> flick 5 True 0
   \<and> settledIndex (6 / 10) 5 (25 / 10) True 0 = 2
   \<and> settledIndex (6 / 10) 5 (265 / 100) True 0 = 3
   \<and> flick 5 True (- 8)
   \<and> settledIndex (6 / 10) 5 (21 / 10) True (- 8) = nextIndex (21 / 10) True"
proof -
  have nf: "\<not> flick 5 True 0" by (simp add: flick_def)
  have fl: "flick 5 True (- 8)" by (simp add: flick_def)
  from release_resolution [of "6 / 10" 5 "25 / 10" True 0] nf
  have a: "settledIndex (6 / 10) 5 (25 / 10) True 0 = 2"
    and b: "settledIndex (6 / 10) 5 (265 / 100) True 0 = 3"
    by blast+
  from release_resolution [of "6 / 10" 5 "21 / 10" True "- 8"] fl
  have c: "settledIndex (6 / 10) 5 (21 / 10) True (- 8) = nextIndex (21 / 10) True"
    by blast
  from nf fl a b c show ?thesis by blast
qed

subsection \<open>The start index at swipe start\<close>

lemmas parse_defs = parseInt10_def is_space_def is_digit_def digit_value_def to_string_def
  to_number_def element_def transformValues_def computedTransform_def

lemma or_else_not_NaN: "or_else q (Fin 0) \<noteq> NaN"
  by (cases q) (simp_all add: or_else_def)

lemma or_else_NaN: "or_else NaN b = b"
  by (simp add: or_else_def)

lemma NaN_absorbs:
  fixes a :: jsnum
  shows "NaN + a = NaN" "a + NaN = NaN" "NaN * a = NaN" "a * NaN = NaN"
    "NaN / a = NaN" "a / NaN = NaN" "- NaN = (NaN :: jsnum)" "NaN - a = NaN" "a - NaN = NaN"
  by (cases a; simp add: minus_jsnum_def)+

lemma rotated_NaN:
  assumes "tx = NaN \<or> ty = NaN"
  shows "pageX (applyRotationMatrix \<lparr>pageX = tx, pageY = ty\<rparr> a) = NaN"
  using assms by (cases a) (auto simp add: applyRotationMatrix_def applyMatrix_def rotationMatrix_def NaN_absorbs)

lemma backComputed_not_NaN: "backComputedStartIndex a vs len pl pr \<noteq> NaN"
  by (simp add: backComputedStartIndex_def Let_def or_else_not_NaN)

lemma backComputed_NaN_input:
  assumes "parseInt10 (to_string (element vs 4)) = NaN \<or> parseInt10 (to_string (element vs 5)) = NaN
     \<or> parseInt10 pl = NaN \<or> parseInt10 pr = NaN"
  shows "backComputedStartIndex a vs len pl pr = Fin 0"
proof -
  let ?num = "pageX (applyRotationMatrix \<lparr>pageX = parseInt10 (to_string (element vs 4)),
      pageY = parseInt10 (to_string (element vs 5))\<rparr> a)"
  let ?den = "to_number len - parseInt10 pl - parseInt10 pr"
  have "?num = NaN \<or> ?den = NaN"
    using assms rotated_NaN [of "parseInt10 (to_string (element vs 4))" "parseInt10 (to_string (element vs 5))" a]
    by (auto simp add: NaN_absorbs)
  then have "- ?num / ?den = NaN"
    by (auto simp add: NaN_absorbs)
  then show ?thesis
    by (simp add: backComputedStartIndex_def Let_def or_else_NaN)
qed

lemma backComputed_zero_by_zero:
  assumes "pageX (applyRotationMatrix \<lparr>pageX = parseInt10 (to_string (element vs 4)),
      pageY = parseInt10 (to_string (element vs 5))\<rparr> a) = Fin 0"
    and "to_number len - parseInt10 pl - parseInt10 pr = Fin 0"
  shows "backComputedStartIndex a vs len pl pr = Fin 0"
  using assms by (simp add: backComputedStartIndex_def Let_def or_else_def)

lemma handleSwipeStart_normal_nonidentity:
  assumes run: "handleSwipeStart p d ev w = (Normal (), w')"
    and t1: "computedTransform d \<noteq> []" and t2: "computedTransform d \<noteq> ''none''"
  shows "\<exists>vs. transformValues (computedTransform d) = Some vs
    \<and> startIndex w' = backComputedStartIndex (axis p) vs (viewLength w') (paddingLeft d) (paddingRight d)"
proof (cases "touches ev")
  case Nil
  with run show ?thesis by (simp add: handleSwipeStart_def js_defs)
next
  case (Cons t0 ts)
  note tch = Cons
  show ?thesis
  proof (cases "containerNode d")
    case None
    with run tch show ?thesis by (simp add: handleSwipeStart_def js_defs)
  next
    case (Some c)
    note cn = Some
    show ?thesis
    proof (cases "transformValues (computedTransform d)")
      case None
      with run tch cn t1 t2 show ?thesis by (simp add: handleSwipeStart_def js_defs)
    next
      case (Some vs)
      note tv = Some
      show ?thesis
      proof (cases "rootNode d")
        case None
        with run tch cn tv t1 t2 show ?thesis by (simp add: handleSwipeStart_def js_defs)
      next
        case (Some r)
        with run tch cn tv t1 t2 show ?thesis
          by (auto simp add: handleSwipeStart_def js_defs)
      qed
    qed
  qed
qed

lemma parseInt10_cases: "parseInt10 s = NaN \<or> (\<exists>r. parseInt10 s = Fin r)"
  by (simp add: parseInt10_def Let_def split: prod.splits)

lemma rotated_cases:
  assumes "tx = NaN \<or> (\<exists>r. tx = Fin r)" and "ty = NaN \<or> (\<exists>r. ty = Fin r)"
  shows "pageX (applyRotationMatrix \<lparr>pageX = tx, pageY = ty\<rparr> a) = NaN
    \<or> (\<exists>r. pageX (applyRotationMatrix \<lparr>pageX = tx, pageY = ty\<rparr> a) = Fin r)"
  using assms by (cases a) (auto simp add: rotation_defs)

lemma quotient_or_zero_finite:
  assumes "num = NaN \<or> (\<exists>r. num = Fin r)" and "den \<noteq> Fin 0 \<or> num = Fin 0"
  shows "\<exists>r. or_else (- num / den) (Fin 0) = Fin r"
  using assms by (cases num; cases den) (auto simp add: or_else_def)

lemma backComputed_finite:
  assumes "to_number len - parseInt10 pl - parseInt10 pr \<noteq> Fin 0
     \<or> pageX (applyRotationMatrix \<lparr>pageX = parseInt10 (to_string (element vs 4)),
          pageY = parseInt10 (to_string (element vs 5))\<rparr> a) = Fin 0"
  shows "\<exists>r. backComputedStartIndex a vs len pl pr = Fin r"
  unfolding backComputedStartIndex_def Let_def
  by (rule quotient_or_zero_finite [OF rotated_cases [OF parseInt10_cases parseInt10_cases] assms])

text \<open>
  C10, as amended. At swipe start, when the container carries a non-identity transform
  and the handler runs to its end, the back-computed \<open>startIndex\<close> is never \<open>NaN\<close>, and
  it is a finite number whenever the denominator is not zero or the numerator is zero:
  when a parsed transform component or padding is not a number, or when numerator and
  denominator are both zero, the \<open>|| 0\<close> fallback sets \<open>startIndex\<close> to 0.
\<close>

theorem startIndex_fallback:
  assumes run: "handleSwipeStart p d ev w = (Normal (), w')"
    and t1: "computedTransform d \<noteq> []" and t2: "computedTransform d \<noteq> ''none''"
  shows "startIndex w' \<noteq> NaN
    \<and> (\<exists>vs. transformValues (computedTransform d) = Some vs
        \<and> (parseInt10 (to_string (element vs 4)) = NaN
             \<or> parseInt10 (to_string (element vs 5)) = NaN
             \<or> parseInt10 (paddingLeft d) = NaN \<or> parseInt10 (paddingRight d) = NaN
            \<longrightarrow> startIndex w' = Fin 0)
        \<and> (pageX (applyRotationMatrix
                \<lparr>pageX = parseInt10 (to_string (element vs 4)),
                 pageY = parseInt10 (to_string (element vs 5))\<rparr> (axis p)) = Fin 0
             \<and> to_number (viewLength w') - parseInt10 (paddingLeft d)
                 - parseInt10 (paddingRight d) = Fin 0
            \<longrightarrow> startIndex w' = Fin 0)
        \<and> (to_number (viewLength w') - parseInt10 (paddingLeft d)
                 - parseInt10 (paddingRight d) \<noteq> Fin 0
             \<or> pageX (applyRotationMatrix
                  \<lparr>pageX = parseInt10 (to_string (element vs 4)),
                   pageY = parseInt10 (to_string (element vs 5))\<rparr> (axis p)) = Fin 0
            \<longrightarrow> (\<exists>r. startIndex w' = Fin r)))"
proof -
  from handleSwipeStart_normal_nonidentity [OF run t1 t2]
  obtain vs where tv: "transformValues (computedTransform d) = Some vs"
    and si: "startIndex w' = backComputedStartIndex (axis p) vs (viewLength w')
        (paddingLeft d) (paddingRight d)"
    by blast
  have a: "startIndex w' \<noteq> NaN"
    using si by (simp add: backComputed_not_NaN)
  have b: "parseInt10 (to_string (element vs 4)) = NaN
      \<or> parseInt10 (to_string (element vs 5)) = NaN
      \<or> parseInt10 (paddingLeft d) = NaN \<or> parseInt10 (paddingRight d) = NaN
      \<longrightarrow> startIndex w' = Fin 0"
    using si backComputed_NaN_input by simp
  have c: "pageX (applyRotationMatrix
        \<lparr>pageX = parseInt10 (to_string (element vs 4)),
         pageY = parseInt10 (to_string (element vs 5))\<rparr> (axis p)) = Fin 0
      \<and> to_number (viewLength w') - parseInt10 (paddingLeft d)
          - parseInt10 (paddingRight d) = Fin 0
      \<longrightarrow> startIndex w' = Fin 0"
    using si backComputed_zero_by_zero by simp
  have f: "to_number (viewLength w') - parseInt10 (paddingLeft d)
          - parseInt10 (paddingRight d) \<noteq> Fin 0
      \<or> pageX (applyRotationMatrix
            \<lparr>pageX = parseInt10 (to_string (element vs 4)),
             pageY = parseInt10 (to_string (element vs 5))\<rparr> (axis p)) = Fin 0
      \<longrightarrow> (\<exists>r. startIndex w' = Fin r)"
    using si backComputed_finite by simp
  from tv a b c f show ?thesis by blast
qed

lemma collapsed_run:
  "handleSwipeStart default_props collapsed_dom (touch_event 7 9) (idle_world\<lparr>startIndex := Fin 5\<rparr>)
    = (Normal (), idle_world\<lparr>viewLength := Some (Fin 0), started := True, lastX := Fin 7,
         startX := Fin 7, startY := Fin 9, startIndex := Fin 0\<rparr>)"
  by (simp add: handleSwipeStart_def backComputedStartIndex_def collapsed_dom_def rectLength_def
      or_else_def parse_defs js_defs sample_defs rotation_defs)

theorem startIndex_fallback_witness:
  "handleSwipeStart default_props collapsed_dom (touch_event 7 9) (idle_world\<lparr>startIndex := Fin 5\<rparr>)
    = (Normal (), idle_world\<lparr>viewLength := Some (Fin 0), started := True, lastX := Fin 7,
         startX := Fin 7, startY := Fin 9, startIndex := Fin 0\<rparr>)
   \<and> computedTransform collapsed_dom = ''matrix(1, 0, 0, 1, 0, 0)''
   \<and> startIndex (idle_world\<lparr>viewLength := Some (Fin 0), started := True, lastX := Fin 7,
         startX := Fin 7, startY := Fin 9, startIndex := Fin 0\<rparr>) \<noteq> NaN"
proof -
  have t: "computedTransform collapsed_dom = ''matrix(1, 0, 0, 1, 0, 0)''"
    by (simp add: computedTransform_def collapsed_dom_def sample_dom_def)
  have t1: "computedTransform collapsed_dom \<noteq> []" and t2: "computedTransform collapsed_dom \<noteq> ''none''"
    by (simp_all add: t)
  from startIndex_fallback [OF collapsed_run t1 t2]
  have "startIndex (idle_world\<lparr>viewLength := Some (Fin 0), started := True, lastX := Fin 7,
         startX := Fin 7, startY := Fin 9, startIndex := Fin 0\<rparr>) \<noteq> NaN"
    by blast
  with collapsed_run t show ?thesis by blast
qed

text \<open>
  The claim as stated fails for a zero denominator under a non-zero numerator: the
  quotient is \<open>Infinity\<close>, which is truthy, so the fallback does not apply.
\<close>

theorem startIndex_infinite_counterexample:
  "handleSwipeStart default_props pixel_dom (touch_event 7 9) idle_world
    = (Normal (), idle_world\<lparr>viewLength := Some (Fin 20), started := True, lastX := Fin 7,
         startX := Fin 7, startY := Fin 9, startIndex := PInf\<rparr>)
   \<and> to_number (Some (Fin 20)) - parseInt10 (paddingLeft pixel_dom)
        - parseInt10 (paddingRight pixel_dom) = Fin 0"
  by (simp add: handleSwipeStart_def backComputedStartIndex_def pixel_dom_def rectLength_def
      or_else_def parse_defs js_defs sample_defs rotation_defs)


end
